theory Spec2Isabelle
  imports Main "HOL-Library.Char_ord" "HOL-Library.List_Lexorder"
begin

section \<open>Data model (game.ts, lines 4--105)\<close>

text \<open>
  Instants are ISO-8601 strings and the code compares them with the string operators
  \<open><\<close>, \<open><=\<close>, \<open>>\<close>: the lexicographic order on character lists.

  JavaScript numbers are modelled by \<open>int\<close>: every number the engine stores (AP, HP,
  range, coordinates, indices) starts as an integer literal in \<open>initGame\<close> and is only changed by
  adding or subtracting integers. The one place where the code itself asks whether a number is
  an integer is the target of a VOTE, which is therefore a \<open>jsnumber\<close>.

  \<open>null\<close>, \<open>undefined\<close> and the holes of \<open>Array(width)\<close> are all \<open>None\<close>: the code
  only ever tests them with \<open>!= null\<close>.
\<close>

type_synonym instant = string

datatype jsnumber = Integer int | NonInteger

datatype Dir = UP | LEFT | RIGHT | DOWN

datatype GameEvent =
    GameEventUpgrade (submittedAt: instant) int
  | GameEventPlace (submittedAt: instant) int int int
  | GameEventMove (submittedAt: instant) int Dir
  | GameEventFire (submittedAt: instant) int int
  | GameEventVote (submittedAt: instant) int jsnumber
  | GameEventGiftAP (submittedAt: instant) int int
  | GameEventGiftHP (submittedAt: instant) int int
  | GameEventTick (submittedAt: instant)

record Player =
  id_str :: string

record Dimensions =
  height :: int
  width :: int

record GameConfig =
  players :: "Player list"
  dimensions :: Dimensions
  startAt :: instant
  turnInterval :: string
  turnIntervalTZ :: string

record GamePlayerState =
  placed :: bool
  alive :: bool
  disqualified :: bool
  locRow :: int
  locCol :: int
  range_ps :: int
  ap :: int
  hp :: int

record GameState =
  config :: GameConfig
  playerStates :: "GamePlayerState list"
  boardState :: "int option list list"
  votes :: "int option list"
  winner :: "int option"

record GameProcessState =
  state :: GameState
  events :: "GameEvent list"
  updatedAt :: instant

text \<open>Every \<open>throw new Error(...)\<close> of game.ts, plus the errors raised below it:
  \<open>TypeError\<close> (a property of \<open>undefined\<close> is read or written), \<open>RangeError\<close>
  (\<open>Array(n)\<close> with an invalid length) and \<open>ScheduleParseError\<close> (cron-parser's
  \<open>parseExpression\<close> rejects the schedule expression or the time zone).\<close>

datatype error =
    InvalidPlayerInput
  | GameAlreadyComplete
  | GameNotYetStarted
  | PlayerDisqualified
  | AlreadyPlaced
  | InsufficientAP
  | PlacementOutOfBounds
  | PlacementOccupied
  | NotYetPlaced
  | AlreadyDied
  | InvalidMovement
  | MovementOutOfBounds
  | MovementOccupied
  | InvalidPlayerTarget
  | TargetOutOfRange
  | TargetAlreadyDead
  | VoteOnlyWhenDead
  | VoteOncePerRound
  | InvalidTargetPlayer
  | InvalidActionType
  | RetroactiveEvents
  | ScheduleParseError
  | TypeError
  | RangeError

section \<open>JavaScript arrays\<close>

text \<open>\<open>xs[i]\<close> read: \<open>undefined\<close> (here \<open>None\<close>) outside \<open>0 .. length-1\<close>.\<close>

definition js_get :: "'a list \<Rightarrow> int \<Rightarrow> 'a option" where
  "js_get xs i = (if 0 \<le> i \<and> i < int (length xs) then Some (xs ! nat i) else None)"

text \<open>\<open>xs[i] = v\<close> on an array of nullable cells: beyond the end the array grows (the new
  cells in between are holes); a negative index sets a property and leaves the cells alone.\<close>

definition js_set :: "'a option list \<Rightarrow> int \<Rightarrow> 'a option \<Rightarrow> 'a option list" where
  "js_set xs i v =
     (if i < 0 then xs
      else if i < int (length xs) then xs[nat i := v]
      else xs @ replicate (nat i - length xs) None @ [v])"

section \<open>initGame (lines 134--170)\<close>

text \<open>\<open>typia.is<GameConfig>\<close> checks the shape that the record type already fixes.
  \<open>Array(n)\<close> raises a RangeError unless \<open>n\<close> is an array length; the rows
  \<open>Array(width)\<close> are only built when there is at least one row.\<close>

definition validArrayLength :: "int \<Rightarrow> bool" where
  "validArrayLength n = (0 \<le> n \<and> n < 4294967296)"

definition initPlayerState :: GamePlayerState where
  "initPlayerState =
     \<lparr>placed = False, alive = True, disqualified = False, locRow = -1, locCol = -1,
      range_ps = 2, ap = 0, hp = 0\<rparr>"

definition initGame :: "GameConfig \<Rightarrow> error + GameState" where
  "initGame cfg =
     (let h = height (dimensions cfg); w = width (dimensions cfg) in
      if \<not> validArrayLength h then Inl RangeError
      else if 0 < h \<and> \<not> validArrayLength w then Inl RangeError
      else Inr \<lparr>config = cfg,
                playerStates = map (\<lambda>_. initPlayerState) (players cfg),
                boardState = replicate (nat h) (replicate (nat w) None),
                votes = map (\<lambda>_. None) (players cfg),
                winner = None\<rparr>)"

section \<open>processEvent (lines 172--395)\<close>

definition getVector :: "Dir \<Rightarrow> (int \<times> int) option" where
  "getVector v =
     map_of [(UP, (-1, 0)), (LEFT, (0, -1)), (RIGHT, (-1, 0)), (DOWN, (1, 0))] v"

text \<open>Lines 227--233 and 386--392: the survivors and the winner they decide.\<close>

definition survivors :: "GamePlayerState list \<Rightarrow> int list" where
  "survivors ps = map int (filter (\<lambda>i. alive (ps ! i)) [0..<length ps])"

definition decideWinner :: "GameState \<Rightarrow> GameState" where
  "decideWinner nextState =
     (let sv = survivors (playerStates nextState) in
      if length sv = 1 then nextState\<lparr>winner := Some (hd sv)\<rparr>
      else if length sv = 0 then nextState\<lparr>winner := Some (-1)\<rparr>
      else nextState)"

subsection \<open>TICK (lines 201--236)\<close>

definition disqualifyUnplaced :: "GamePlayerState list \<Rightarrow> GamePlayerState list" where
  "disqualifyUnplaced ps =
     map (\<lambda>p. if \<not> placed p then p\<lparr>alive := False, disqualified := True\<rparr> else p) ps"

text \<open>The \<open>forEach\<close> over the votes, slot \<open>i\<close> first: \<open>playerStates[i]\<close> and
  \<open>playerStates[v]\<close> are read without a bounds check, so a missing player is a TypeError.\<close>

fun tallyVotes ::
  "GamePlayerState list \<Rightarrow> int option list \<Rightarrow> nat \<Rightarrow> int list \<Rightarrow> error + int list" where
  "tallyVotes ps [] i voteCounts = Inr voteCounts"
| "tallyVotes ps (v # vs) i voteCounts =
     (if length ps \<le> i then Inl TypeError
      else if disqualified (ps ! i) \<or> alive (ps ! i) then tallyVotes ps vs (Suc i) voteCounts
      else case v of
        None \<Rightarrow> tallyVotes ps vs (Suc i) voteCounts
      | Some t \<Rightarrow>
          (case js_get ps t of
             None \<Rightarrow> Inl TypeError
           | Some tp \<Rightarrow>
               if alive tp
               then tallyVotes ps vs (Suc i) (voteCounts[nat t := voteCounts ! nat t + 1])
               else tallyVotes ps vs (Suc i) voteCounts))"

definition grantAP :: "GamePlayerState list \<Rightarrow> int list \<Rightarrow> GamePlayerState list" where
  "grantAP ps voteCounts =
     map (\<lambda>(p, c). if \<not> alive p \<or> \<not> placed p then p else p\<lparr>ap := ap p + (1 + c div 3)\<rparr>)
       (zip ps voteCounts)"

definition processTick :: "GameState \<Rightarrow> error + GameState" where
  "processTick nextState =
     (let ps = disqualifyUnplaced (playerStates nextState) in
      case tallyVotes ps (votes nextState) 0 (map (\<lambda>_. 0) ps) of
        Inl e \<Rightarrow> Inl e
      | Inr voteCounts \<Rightarrow>
          Inr (decideWinner
                (nextState\<lparr>playerStates := grantAP ps voteCounts,
                           votes := map (\<lambda>_. None) (votes nextState)\<rparr>)))"

subsection \<open>Player actions (lines 238--384)\<close>

text \<open>
  \<open>nextState\<close> is a deep copy of \<open>state\<close>, but \<open>pState\<close> is
  \<open>state.playerStates[event.player]\<close>: the actor's object inside the \<^emph>\<open>input\<close> state.
  Every assignment through \<open>pState\<close> therefore changes the caller's state object and not
  the state that is returned. Each handler returns both: the input state as the call leaves
  it, and the error thrown or the \<open>nextState\<close> on its way to the winner check.
\<close>

definition setActor :: "GameState \<Rightarrow> int \<Rightarrow> GamePlayerState \<Rightarrow> GameState" where
  "setActor st player pState = st\<lparr>playerStates := (playerStates st)[nat player := pState]\<rparr>"

definition outOfBounds :: "GameState \<Rightarrow> int \<Rightarrow> int \<Rightarrow> bool" where
  "outOfBounds nextState r c =
     (r \<ge> height (dimensions (config nextState)) - 1 \<or>
      c \<ge> width (dimensions (config nextState)) \<or> r < 0 \<or> c < 0)"

definition distance :: "GamePlayerState \<Rightarrow> GamePlayerState \<Rightarrow> int" where
  "distance t pState = max \<bar>locCol t - locCol pState\<bar> \<bar>locRow t - locCol pState\<bar>"

definition invalidTarget :: "GameState \<Rightarrow> int \<Rightarrow> bool" where
  "invalidTarget st target = (target < 0 \<or> target > int (length (playerStates st)) - 1)"

definition processPlace ::
  "int \<Rightarrow> GamePlayerState \<Rightarrow> int \<Rightarrow> int \<Rightarrow> GameState \<Rightarrow> GameState \<Rightarrow> GameState \<times> (error + GameState)" where
  "processPlace player pState r c st nextState =
     (if placed pState then (st, Inl AlreadyPlaced)
      else if ap pState < 1 then (st, Inl InsufficientAP)
      else if outOfBounds nextState r c then (st, Inl PlacementOutOfBounds)
      else case js_get (boardState nextState) r of
        None \<Rightarrow> (st, Inl TypeError)
      | Some cells \<Rightarrow>
          (case js_get cells c of
             Some (Some occupant) \<Rightarrow> (st, Inl PlacementOccupied)
           | _ \<Rightarrow>
               (setActor st player (pState\<lparr>placed := True\<rparr>),
                Inr (nextState\<lparr>boardState :=
                       (boardState nextState)[nat r := js_set cells c (Some player)]\<rparr>))))"

definition processMove ::
  "int \<Rightarrow> GamePlayerState \<Rightarrow> Dir \<Rightarrow> GameState \<Rightarrow> GameState \<Rightarrow> GameState \<times> (error + GameState)" where
  "processMove player pState d st nextState =
     (if \<not> placed pState then (st, Inl NotYetPlaced)
      else if \<not> alive pState then (st, Inl AlreadyDied)
      else if ap pState < 1 then (st, Inl InsufficientAP)
      else case getVector d of
        None \<Rightarrow> (st, Inl InvalidMovement)
      | Some (dr, dc) \<Rightarrow>
          (let r = locRow pState + dr; c = locCol pState + dc in
           if outOfBounds nextState r c then (st, Inl MovementOutOfBounds)
           else case js_get (boardState nextState) r of
             None \<Rightarrow> (st, Inl TypeError)
           | Some cells \<Rightarrow>
               (case js_get cells c of
                  Some (Some occupant) \<Rightarrow> (st, Inl MovementOccupied)
                | _ \<Rightarrow>
                    (let pState1 = pState\<lparr>ap := ap pState - 1\<rparr> in
                     case js_get (boardState nextState) (locRow pState) of
                       None \<Rightarrow> (setActor st player pState1, Inl TypeError)
                     | Some old \<Rightarrow>
                         (let board1 = (boardState nextState)
                                [nat (locRow pState) := js_set old (locCol pState) None];
                              board2 = board1[nat r := js_set (board1 ! nat r) c (Some player)]
                          in (setActor st player (pState1\<lparr>locRow := r, locCol := c\<rparr>),
                              Inr (nextState\<lparr>boardState := board2\<rparr>)))))))"

definition processFire ::
  "int \<Rightarrow> GamePlayerState \<Rightarrow> int \<Rightarrow> GameState \<Rightarrow> GameState \<Rightarrow> GameState \<times> (error + GameState)" where
  "processFire player pState target st nextState =
     (if ap pState < 1 then (st, Inl InsufficientAP)
      else if invalidTarget st target then (st, Inl InvalidPlayerTarget)
      else
        (let t = playerStates nextState ! nat target in
         if distance t pState > range_ps pState then (st, Inl TargetOutOfRange)
         else
           (let t1 = t\<lparr>hp := hp t - 1\<rparr>; pState1 = pState\<lparr>ap := ap pState - 1\<rparr> in
            if hp t1 \<le> 0
            then (setActor st player (pState1\<lparr>ap := ap pState1 + ap t1\<rparr>),
                  Inr (nextState\<lparr>playerStates :=
                         (playerStates nextState)[nat target := t1\<lparr>alive := False, ap := 0\<rparr>]\<rparr>))
            else (setActor st player pState1,
                  Inr (nextState\<lparr>playerStates :=
                         (playerStates nextState)[nat target := t1]\<rparr>)))))"

definition processGiftAP ::
  "int \<Rightarrow> GamePlayerState \<Rightarrow> int \<Rightarrow> GameState \<Rightarrow> GameState \<Rightarrow> GameState \<times> (error + GameState)" where
  "processGiftAP player pState target st nextState =
     (if ap pState < 1 then (st, Inl InsufficientAP)
      else if invalidTarget st target then (st, Inl InvalidPlayerTarget)
      else
        (let t = playerStates nextState ! nat target in
         if \<not> alive t then (st, Inl TargetAlreadyDead)
         else if distance t pState > range_ps pState then (st, Inl TargetOutOfRange)
         else (setActor st player (pState\<lparr>ap := ap pState - 1\<rparr>),
               Inr (nextState\<lparr>playerStates :=
                      (playerStates nextState)[nat target := t\<lparr>ap := ap t + 1\<rparr>]\<rparr>))))"

definition processGiftHP ::
  "int \<Rightarrow> GamePlayerState \<Rightarrow> int \<Rightarrow> GameState \<Rightarrow> GameState \<Rightarrow> GameState \<times> (error + GameState)" where
  "processGiftHP player pState target st nextState =
     (if hp pState < 1 then (st, Inl InsufficientAP)
      else if invalidTarget st target then (st, Inl InvalidPlayerTarget)
      else
        (let t = playerStates nextState ! nat target in
         if distance t pState > range_ps pState then (st, Inl TargetOutOfRange)
         else
           (let pState1 = pState\<lparr>hp := hp pState - 1\<rparr> in
            (setActor st player (if hp pState1 \<le> 0 then pState1\<lparr>alive := False\<rparr> else pState1),
             Inr (nextState\<lparr>playerStates :=
                    (playerStates nextState)[nat target := t\<lparr>hp := hp t + 1\<rparr>]\<rparr>)))))"

definition processUpgrade ::
  "int \<Rightarrow> GamePlayerState \<Rightarrow> GameState \<Rightarrow> GameState \<Rightarrow> GameState \<times> (error + GameState)" where
  "processUpgrade player pState st nextState =
     (if ap pState < 3 then (st, Inl InsufficientAP)
      else (setActor st player (pState\<lparr>ap := ap pState - 3, range_ps := range_ps pState + 1\<rparr>),
            Inr nextState))"

definition processVote ::
  "int \<Rightarrow> GamePlayerState \<Rightarrow> jsnumber \<Rightarrow> GameState \<Rightarrow> GameState \<Rightarrow> GameState \<times> (error + GameState)" where
  "processVote player pState target st nextState =
     (if alive pState then (st, Inl VoteOnlyWhenDead)
      else case js_get (votes nextState) player of
        Some (Some cast) \<Rightarrow> (st, Inl VoteOncePerRound)
      | _ \<Rightarrow>
          (case target of
             NonInteger \<Rightarrow> (st, Inl InvalidTargetPlayer)
           | Integer n \<Rightarrow>
               if n < 0 \<or> n < int (length (playerStates st)) - 1
               then (st, Inl InvalidTargetPlayer)
               else (st, Inr (nextState\<lparr>votes := js_set (votes nextState) player (Some n)\<rparr>))))"

text \<open>The actor's checks shared by every player action (lines 238--241), then the handler of
  the event's type. A TICK has returned at line 235 and never reaches the chain of actions, whose
  last branch (line 383) rejects any other type.\<close>

definition withActor ::
  "int \<Rightarrow> GameState \<Rightarrow> (GamePlayerState \<Rightarrow> GameState \<times> (error + GameState)) \<Rightarrow>
     GameState \<times> (error + GameState)" where
  "withActor player st handler =
     (case js_get (playerStates st) player of
        None \<Rightarrow> (st, Inl TypeError)
      | Some pState \<Rightarrow>
          if disqualified pState then (st, Inl PlayerDisqualified) else handler pState)"

fun processAction :: "GameEvent \<Rightarrow> GameState \<Rightarrow> GameState \<Rightarrow> GameState \<times> (error + GameState)" where
  "processAction (GameEventPlace at player r c) st nextState =
     withActor player st (\<lambda>pState. processPlace player pState r c st nextState)"
| "processAction (GameEventMove at player d) st nextState =
     withActor player st (\<lambda>pState. processMove player pState d st nextState)"
| "processAction (GameEventFire at player target) st nextState =
     withActor player st (\<lambda>pState. processFire player pState target st nextState)"
| "processAction (GameEventGiftAP at player target) st nextState =
     withActor player st (\<lambda>pState. processGiftAP player pState target st nextState)"
| "processAction (GameEventGiftHP at player target) st nextState =
     withActor player st (\<lambda>pState. processGiftHP player pState target st nextState)"
| "processAction (GameEventUpgrade at player) st nextState =
     withActor player st (\<lambda>pState. processUpgrade player pState st nextState)"
| "processAction (GameEventVote at player target) st nextState =
     withActor player st (\<lambda>pState. processVote player pState target st nextState)"
| "processAction (GameEventTick at) st nextState = (st, Inl InvalidActionType)"

text \<open>The result is the pair of the input state object after the call and of what the call
  gives: the error thrown, or the state returned.\<close>

definition processEvent :: "GameEvent \<Rightarrow> GameState \<Rightarrow> GameState \<times> (error + GameState)" where
  "processEvent event st =
     (if winner st \<noteq> None then (st, Inl GameAlreadyComplete)
      else if submittedAt event \<le> startAt (config st) then (st, Inl GameNotYetStarted)
      else
        (let nextState = st\<lparr>winner := None\<rparr> in
         case event of
           GameEventTick at \<Rightarrow> (st, processTick nextState)
         | _ \<Rightarrow>
             (case processAction event st nextState of
                (st', Inl e) \<Rightarrow> (st', Inl e)
              | (st', Inr nextState') \<Rightarrow> (st', Inr (decideWinner nextState')))))"

section \<open>The process (lines 397--465)\<close>

definition initProcess :: "GameState \<Rightarrow> GameProcessState" where
  "initProcess st = \<lparr>state = st, events = [], updatedAt = startAt (config st)\<rparr>"

text \<open>
  \<open>processEvents\<close>: the comparator \<open>a.submittedAt < b.submittedAt ? -1 : 1\<close> orders the copy
  by instant; \<open>sort_key\<close> is the stable sort. \<open>nextProcess\<close> is built at line 415.
  Lines 420--424 then open the schedule with cron-parser's \<open>parseExpression\<close>, which throws
  when it cannot parse the expression or does not know the time zone; the library is not part
  of this code, so \<open>parses expression currentDate tz\<close> says whether that call returns. The
  iterator it returns is never used, and line 427 returns \<open>process\<close>.
\<close>

definition processEvents ::
  "(string \<Rightarrow> instant \<Rightarrow> string \<Rightarrow> bool) \<Rightarrow> GameProcessState \<Rightarrow> GameEvent list \<Rightarrow>
     error + GameProcessState" where
  "processEvents parses process evs =
     (if length evs = 0 then Inr process
      else
        (let sorted = sort_key submittedAt evs in
         if submittedAt (hd sorted) \<le> updatedAt process then Inl RetroactiveEvents
         else
           (let nextProcess = process\<lparr>events := events process @ sorted\<rparr> in
            if parses (turnInterval (config (state process))) (updatedAt process)
                 (turnIntervalTZ (config (state process)))
            then Inr process
            else Inl ScheduleParseError)))"

text \<open>
  \<open>calculateState\<close>. The schedule is the iterator of the cron-parser library, opened at
  \<open>config.startAt\<close>: \<open>ticks k\<close> is the instant its \<open>k\<close>-th call of \<open>next()\<close> gives, so
  \<open>nextTick\<close> is \<open>ticks k\<close> for the number \<open>k\<close> of ticks chosen so far. \<open>until\<close> is
  \<open>at.toISOString()\<close>. The model starts from the opened iterator: a schedule that
  \<open>parseExpression\<close> rejects makes the call throw at line 431, before the loop.

  \<open>currentState\<close> starts as \<open>process.state\<close> itself, not as a copy: \<open>cur = None\<close> says that
  it still is that object, so that what \<open>processEvent\<close> does to its input is done to the
  stored state (\<open>storeInput\<close>); from the first event applied on, \<open>cur = Some s\<close> is a
  state of its own.

  The loop is \<open>while (true)\<close>; it runs on fuel, and \<open>None\<close> is the loop still running when
  the fuel is spent. The result is the process as the call leaves it and the error thrown or the
  state returned.
\<close>

definition currentStateOf :: "GameProcessState \<Rightarrow> GameState option \<Rightarrow> GameState" where
  "currentStateOf process cur = (case cur of None \<Rightarrow> state process | Some s \<Rightarrow> s)"

definition storeInput :: "GameProcessState \<Rightarrow> GameState option \<Rightarrow> GameState \<Rightarrow> GameProcessState" where
  "storeInput process cur st' = (case cur of None \<Rightarrow> process\<lparr>state := st'\<rparr> | Some s \<Rightarrow> process)"

fun calculateLoop ::
  "nat \<Rightarrow> (nat \<Rightarrow> instant) \<Rightarrow> instant \<Rightarrow> GameProcessState \<Rightarrow> nat \<Rightarrow> nat \<Rightarrow> GameState option \<Rightarrow>
     (GameProcessState \<times> (error + GameState)) option" where
  "calculateLoop 0 ticks until process k i cur = None"
| "calculateLoop (Suc fuel) ticks until process k i cur =
     (let nextTick = ticks k;
          useTick = (if i < length (events process)
                     then submittedAt (events process ! i) \<le> nextTick else True);
          currentEvent = (if useTick then GameEventTick nextTick else events process ! i);
          k' = (if useTick then Suc k else k);
          i' = (if useTick then i else Suc i);
          currentState = currentStateOf process cur
      in
        if updatedAt process \<ge> submittedAt currentEvent
        then calculateLoop fuel ticks until process k' i' cur
        else if submittedAt currentEvent > until \<or> winner currentState \<noteq> None
        then Some (process, Inr currentState)
        else
          (case processEvent currentEvent currentState of
             (st', Inl e) \<Rightarrow> Some (storeInput process cur st', Inl e)
           | (st', Inr nextState) \<Rightarrow>
               calculateLoop fuel ticks until (storeInput process cur st') k' i' (Some nextState)))"

definition calculateState ::
  "nat \<Rightarrow> (nat \<Rightarrow> instant) \<Rightarrow> instant \<Rightarrow> GameProcessState \<Rightarrow>
     (GameProcessState \<times> (error + GameState)) option" where
  "calculateState fuel ticks until process = calculateLoop fuel ticks until process 0 0 None"

section \<open>Concrete games\<close>

text \<open>A three-player game on a 4 x 4 board that starts on 8 September 2023, 04:00 UTC, and
  ticks every day at 03:00 UTC: \<open>demoTicks\<close> gives the first instants of that schedule
  (the runs below never pull more than three of them).\<close>

definition demoConfig :: GameConfig where
  "demoConfig =
     \<lparr>players = [\<lparr>id_str = ''a''\<rparr>, \<lparr>id_str = ''b''\<rparr>, \<lparr>id_str = ''c''\<rparr>],
      dimensions = \<lparr>height = 4, width = 4\<rparr>,
      startAt = ''2023-09-08T04:00:00.000Z'',
      turnInterval = ''0 3 * * *'',
      turnIntervalTZ = ''UTC''\<rparr>"

definition demoTicks :: "nat \<Rightarrow> instant" where
  "demoTicks k =
     [''2023-09-09T03:00:00.000Z'', ''2023-09-10T03:00:00.000Z'',
      ''2023-09-11T03:00:00.000Z'', ''2023-09-12T03:00:00.000Z''] ! min k 3"

text \<open>What \<open>parseExpression\<close> does with the schedule of \<open>demoConfig\<close>: the expression
  \<open>0 3 * * *\<close> is a cron expression and \<open>UTC\<close> a time zone, so the call returns.\<close>

definition demoParses :: "string \<Rightarrow> instant \<Rightarrow> string \<Rightarrow> bool" where
  "demoParses expression currentDate tz = (expression = ''0 3 * * *'' \<and> tz = ''UTC'')"

text \<open>A game in progress: players 0 and 1 are placed and alive, player 2 has died and has
  voted for player 1.\<close>

definition battleState :: GameState where
  "battleState =
     \<lparr>config = demoConfig,
      playerStates =
        [\<lparr>placed = True, alive = True, disqualified = False, locRow = 0, locCol = 0,
          range_ps = 2, ap = 2, hp = 3\<rparr>,
         \<lparr>placed = True, alive = True, disqualified = False, locRow = 1, locCol = 1,
          range_ps = 2, ap = 5, hp = 1\<rparr>,
         \<lparr>placed = True, alive = False, disqualified = False, locRow = 2, locCol = 2,
          range_ps = 2, ap = 0, hp = 0\<rparr>],
      boardState =
        [[Some 0, None, None, None], [None, Some 1, None, None],
         [None, None, Some 2, None], [None, None, None, None]],
      votes = [None, None, Some 1],
      winner = None\<rparr>"


definition wonState :: GameState where
  "wonState = battleState\<lparr>winner := Some 0\<rparr>"

text \<open>A fresh game in which player 0 has been given one action point.\<close>

definition placingState :: GameState where
  "placingState =
     \<lparr>config = demoConfig,
      playerStates = [initPlayerState\<lparr>ap := 1\<rparr>, initPlayerState, initPlayerState],
      boardState = replicate 4 (replicate 4 None),
      votes = [None, None, None],
      winner = None\<rparr>"

text \<open>Two stored processes: one whose log holds a FIRE submitted an hour after the start,
  before the first tick of the schedule, and one whose log holds a PLACE submitted between the
  first tick and the second.\<close>

definition fireProcess :: GameProcessState where
  "fireProcess =
     \<lparr>state = battleState,
      events = [GameEventFire ''2023-09-08T05:00:00.000Z'' 0 1],
      updatedAt = ''2023-09-08T04:00:00.000Z''\<rparr>"

definition placeProcess :: GameProcessState where
  "placeProcess =
     \<lparr>state = placingState,
      events = [GameEventPlace ''2023-09-09T05:00:00.000Z'' 0 0 0],
      updatedAt = ''2023-09-08T04:00:00.000Z''\<rparr>"

text \<open>The game \<open>initGame\<close> gives for \<open>demoConfig\<close>.\<close>

definition freshState :: GameState where
  "freshState =
     \<lparr>config = demoConfig,
      playerStates = [initPlayerState, initPlayerState, initPlayerState],
      boardState = replicate 4 (replicate 4 None),
      votes = [None, None, None],
      winner = None\<rparr>"

text \<open>A player the first tick has disqualified, and \<open>freshState\<close> after that tick.\<close>

definition disqualifiedPlayerState :: GamePlayerState where
  "disqualifiedPlayerState = initPlayerState\<lparr>alive := False, disqualified := True\<rparr>"

definition finishedState :: GameState where
  "finishedState =
     freshState\<lparr>playerStates :=
                   [disqualifiedPlayerState, disqualifiedPlayerState, disqualifiedPlayerState],
                 winner := Some (-1)\<rparr>"

section \<open>Reachable states\<close>

text \<open>The states a game created by \<open>initGame cfg\<close> can be in: the state \<open>initGame\<close> returns,
  every state a successful \<open>processEvent\<close> returns from one of them, and, because
  \<open>processEvent\<close> writes to its input, every input state as a call leaves it.\<close>

inductive reachable :: "GameConfig \<Rightarrow> GameState \<Rightarrow> bool" for cfg :: GameConfig where
  initial: "initGame cfg = Inr st \<Longrightarrow> reachable cfg st"
| returned: "reachable cfg st \<Longrightarrow> processEvent event st = (st', Inr nextState) \<Longrightarrow>
     reachable cfg nextState"
| input: "reachable cfg st \<Longrightarrow> processEvent event st = (st', outcome) \<Longrightarrow> reachable cfg st'"

section \<open>Properties of the transition function\<close>

lemma winner_None_update: "winner st = None \<Longrightarrow> st\<lparr>winner := None\<rparr> = st"
  by simp

lemma votes_decideWinner: "votes (decideWinner st) = votes st"
  by (simp add: decideWinner_def Let_def)

lemma playerStates_decideWinner: "playerStates (decideWinner st) = playerStates st"
  by (simp add: decideWinner_def Let_def)

lemma boardState_decideWinner: "boardState (decideWinner st) = boardState st"
  by (simp add: decideWinner_def Let_def)

subsection \<open>Once the winner is decided\<close>

lemma processEvent_winner_decided:
  "winner st \<noteq> None \<Longrightarrow> processEvent event st = (st, Inl GameAlreadyComplete)"
  by (simp add: processEvent_def)

lemma processEvent_before_start:
  "submittedAt event \<le> startAt (config st) \<Longrightarrow>
   processEvent event st =
     (st, Inl (if winner st \<noteq> None then GameAlreadyComplete else GameNotYetStarted))"
  by (simp add: processEvent_def)

text \<open>With a decided winner the loop applies nothing: whatever the fuel, it is still skipping
  events that are not after \<open>updatedAt\<close>, or it has returned the current state.\<close>

lemma calculateLoop_winner_decided:
  "winner (currentStateOf process cur) \<noteq> None \<Longrightarrow>
   calculateLoop fuel ticks until process k i cur = None \<or>
   calculateLoop fuel ticks until process k i cur =
     Some (process, Inr (currentStateOf process cur))"
proof (induction fuel arbitrary: k i)
  case 0
  then show ?case by simp
next
  case (Suc fuel)
  then show ?case by (simp add: Let_def)
qed

text \<open>It does return as soon as the schedule has an instant after \<open>updatedAt\<close>: each
  iteration before that consumes a logged event or a tick.\<close>

lemma calculateLoop_winner_returns:
  "winner (currentStateOf process cur) \<noteq> None \<Longrightarrow> k \<le> j \<Longrightarrow> updatedAt process < ticks j \<Longrightarrow>
   length (events process) - i + (j - k) < fuel \<Longrightarrow>
   calculateLoop fuel ticks until process k i cur =
     Some (process, Inr (currentStateOf process cur))"
proof (induction fuel arbitrary: k i)
  case 0
  then show ?case by simp
next
  case (Suc fuel)
  let ?useTick = "if i < length (events process)
                     then submittedAt (events process ! i) \<le> ticks k else True"
  show ?case
  proof (cases ?useTick)
    case True
    show ?thesis
    proof (cases "ticks k \<le> updatedAt process")
      case skip: True
      with Suc.prems have "k \<noteq> j" by auto
      with Suc.prems have "Suc k \<le> j" "length (events process) - i + (j - Suc k) < fuel"
        by auto
      from Suc.IH[OF Suc.prems(1) this(1) Suc.prems(3) this(2)] True skip
      show ?thesis by (simp add: Let_def)
    next
      case False
      with True Suc.prems(1) show ?thesis by (simp add: Let_def)
    qed
  next
    case False
    then have i: "i < length (events process)" by (auto split: if_splits)
    show ?thesis
    proof (cases "submittedAt (events process ! i) \<le> updatedAt process")
      case skip: True
      from i Suc.prems have "length (events process) - Suc i + (j - k) < fuel" by auto
      from Suc.IH[OF Suc.prems(1) Suc.prems(2) Suc.prems(3) this] False skip
      show ?thesis by (simp add: Let_def)
    next
      case nskip: False
      with False Suc.prems(1) show ?thesis by (simp add: Let_def)
    qed
  qed
qed

text \<open>
  Claim C9. When \<open>state.winner\<close> is decided, \<open>processEvent\<close> fails for every event, with
  "game already complete", and leaves its input as it was; it also fails for every event whose
  instant is not after \<open>config.startAt\<close>. In \<open>calculateState\<close>, once the current state has
  a decided winner, the loop applies no further event: it can only return the current state
  unchanged (with the stored process unchanged), and it does return it as soon as the schedule
  reaches an instant after \<open>updatedAt\<close>.
\<close>

theorem winner_closure:
  "(winner st \<noteq> None \<longrightarrow> processEvent event st = (st, Inl GameAlreadyComplete)) \<and>
   (submittedAt event \<le> startAt (config st) \<longrightarrow>
      processEvent event st =
        (st, Inl (if winner st \<noteq> None then GameAlreadyComplete else GameNotYetStarted))) \<and>
   (winner (currentStateOf process cur) \<noteq> None \<longrightarrow>
      (calculateLoop fuel ticks until process k i cur = None \<or>
       calculateLoop fuel ticks until process k i cur =
         Some (process, Inr (currentStateOf process cur))) \<and>
      (k \<le> j \<and> updatedAt process < ticks j \<and> length (events process) - i + (j - k) < fuel \<longrightarrow>
       calculateLoop fuel ticks until process k i cur =
         Some (process, Inr (currentStateOf process cur))))"
  using processEvent_winner_decided [of st event] processEvent_before_start [of event st]
    calculateLoop_winner_decided [of process cur fuel ticks until k i]
    calculateLoop_winner_returns [of process cur k j ticks i fuel until]
  by blast

theorem winner_closure_witness:
  "processEvent (GameEventFire ''2023-09-08T05:00:00.000Z'' 0 1) wonState =
     (wonState, Inl GameAlreadyComplete) \<and>
   processEvent (GameEventTick ''2023-09-08T04:00:00.000Z'') battleState =
     (battleState, Inl GameNotYetStarted) \<and>
   calculateLoop 2 demoTicks ''2023-09-12T00:00:00.000Z''
       \<lparr>state = wonState, events = [GameEventFire ''2023-09-08T04:00:00.000Z'' 0 1],
        updatedAt = ''2023-09-08T04:00:00.000Z''\<rparr> 0 0 None =
     Some (\<lparr>state = wonState, events = [GameEventFire ''2023-09-08T04:00:00.000Z'' 0 1],
            updatedAt = ''2023-09-08T04:00:00.000Z''\<rparr>, Inr wonState)"
proof -
  let ?process = "\<lparr>state = wonState, events = [GameEventFire ''2023-09-08T04:00:00.000Z'' 0 1],
        updatedAt = ''2023-09-08T04:00:00.000Z''\<rparr>"
  have won: "winner wonState \<noteq> None"
    by (simp add: wonState_def)
  have early: "submittedAt (GameEventTick ''2023-09-08T04:00:00.000Z'') \<le> startAt (config battleState)"
    by (simp add: battleState_def demoConfig_def)
  have open_game: "winner battleState = None"
    by (simp add: battleState_def)
  have cur: "currentStateOf ?process None = wonState"
    by (simp add: currentStateOf_def)
  have later: "updatedAt ?process < demoTicks 0"
    by (simp add: demoTicks_def)
  have fuel: "length (events ?process) - 0 + (0 - 0) < (2::nat)"
    by simp
  show ?thesis
    using winner_closure [of wonState "GameEventFire ''2023-09-08T05:00:00.000Z'' 0 1"]
      winner_closure [of battleState "GameEventTick ''2023-09-08T04:00:00.000Z''"]
      winner_closure [of _ _ ?process None 2 demoTicks "''2023-09-12T00:00:00.000Z''" 0 0 0]
      won early open_game cur later fuel
    by simp
qed

subsection \<open>The target of a vote\<close>




subsection \<open>A game created by initGame\<close>

lemma js_get_replicate: "js_get (replicate n x) i = Some y \<Longrightarrow> y = x"
  by (auto simp: js_get_def split: if_splits)

lemma tallyVotes_all_disqualified:
  "\<forall>p \<in> set ps. disqualified p \<Longrightarrow> i + length vs \<le> length ps \<Longrightarrow>
   tallyVotes ps vs i voteCounts = Inr voteCounts"
  by (induction vs arbitrary: i) auto

lemma survivors_none: "\<forall>p \<in> set ps. \<not> alive p \<Longrightarrow> survivors ps = []"
  by (auto simp: survivors_def filter_empty_conv)

lemma initGame_shape:
  assumes "initGame cfg = Inr st"
  shows "winner st = None" "playerStates st = replicate (length (players cfg)) initPlayerState"
    "votes st = replicate (length (players cfg)) None" "config st = cfg"
  using assms by (auto simp: initGame_def Let_def map_replicate_const split: if_splits)

lemma processTick_fresh:
  assumes "playerStates st = replicate n initPlayerState" "votes st = replicate n None"
  shows "\<exists>next. processTick st = Inr next \<and> winner next = Some (-1) \<and>
     playerStates next = replicate n disqualifiedPlayerState"
proof -
  have dq: "disqualifyUnplaced (playerStates st) = replicate n disqualifiedPlayerState"
    by (simp add: assms disqualifyUnplaced_def initPlayerState_def disqualifiedPlayerState_def)
  have tally: "tallyVotes (replicate n disqualifiedPlayerState) (votes st) 0
      (replicate n 0) = Inr (replicate n 0)"
    by (subst tallyVotes_all_disqualified)
      (simp_all add: assms disqualifiedPlayerState_def)
  have grant: "grantAP (replicate n disqualifiedPlayerState) (replicate n 0) =
      replicate n disqualifiedPlayerState"
    by (simp add: grantAP_def zip_replicate disqualifiedPlayerState_def)
  have surv: "survivors (replicate n disqualifiedPlayerState) = []"
    by (rule survivors_none) (simp add: disqualifiedPlayerState_def)
  show ?thesis
    by (simp add: processTick_def Let_def dq tally grant decideWinner_def surv)
qed

lemma processAction_fresh:
  assumes "playerStates st = replicate n initPlayerState"
    and "\<And>at. event \<noteq> GameEventTick at"
  shows "\<exists>e. processAction event st nextState = (st, Inl e)"
proof (cases event)
  case (GameEventUpgrade at player)
  then show ?thesis using assms(1)
    by (auto simp: withActor_def processUpgrade_def initPlayerState_def
        split: option.splits dest!: js_get_replicate)
next
  case (GameEventPlace at player r c)
  then show ?thesis using assms(1)
    by (auto simp: withActor_def processPlace_def initPlayerState_def
        split: option.splits dest!: js_get_replicate)
next
  case (GameEventMove at player d)
  then show ?thesis using assms(1)
    by (auto simp: withActor_def processMove_def initPlayerState_def
        split: option.splits dest!: js_get_replicate)
next
  case (GameEventFire at player target)
  then show ?thesis using assms(1)
    by (auto simp: withActor_def processFire_def initPlayerState_def
        split: option.splits dest!: js_get_replicate)
next
  case (GameEventVote at player target)
  then show ?thesis using assms(1)
    by (auto simp: withActor_def processVote_def initPlayerState_def
        split: option.splits dest!: js_get_replicate)
next
  case (GameEventGiftAP at player target)
  then show ?thesis using assms(1)
    by (auto simp: withActor_def processGiftAP_def initPlayerState_def
        split: option.splits dest!: js_get_replicate)
next
  case (GameEventGiftHP at player target)
  then show ?thesis using assms(1)
    by (auto simp: withActor_def processGiftHP_def initPlayerState_def
        split: option.splits dest!: js_get_replicate)
next
  case (GameEventTick at)
  with assms(2) show ?thesis by simp
qed

lemma processEvent_fresh:
  assumes "playerStates st = replicate n initPlayerState" "votes st = replicate n None"
    "winner st = None"
  shows "fst (processEvent event st) = st"
    and "(\<And>at. event \<noteq> GameEventTick at) \<Longrightarrow> \<exists>e. processEvent event st = (st, Inl e)"
    and "processEvent event st = (st', Inr next) \<Longrightarrow>
          winner next = Some (-1) \<and> playerStates next = replicate n disqualifiedPlayerState"
    and "startAt (config st) < at \<Longrightarrow> \<exists>next. processEvent (GameEventTick at) st = (st, Inr next)"
proof -
  have upd: "st\<lparr>winner := None\<rparr> = st" using assms(3) by simp
  obtain nxt where tick: "processTick st = Inr nxt" "winner nxt = Some (-1)"
    "playerStates nxt = replicate n disqualifiedPlayerState"
    using processTick_fresh [OF assms(1,2)] by blast
  have act: "\<exists>e. processAction event st st = (st, Inl e)" if "\<forall>at. event \<noteq> GameEventTick at"
    using processAction_fresh [OF assms(1)] that by blast
  show "fst (processEvent event st) = st"
  proof (cases "\<exists>at. event = GameEventTick at")
    case True
    then show ?thesis by (auto simp: processEvent_def upd)
  next
    case False
    then have "\<forall>at. event \<noteq> GameEventTick at" by simp
    from act [OF this] obtain e where "processAction event st st = (st, Inl e)" by blast
    with False show ?thesis by (cases event) (auto simp: processEvent_def upd Let_def)
  qed
  show "\<exists>e. processEvent event st = (st, Inl e)" if "\<And>at. event \<noteq> GameEventTick at"
  proof -
    from that have "\<forall>at. event \<noteq> GameEventTick at" by simp
    from act [OF this] obtain e where "processAction event st st = (st, Inl e)" by blast
    with that show ?thesis by (cases event) (auto simp: processEvent_def upd Let_def)
  qed
  show "winner next = Some (-1) \<and> playerStates next = replicate n disqualifiedPlayerState"
    if "processEvent event st = (st', Inr next)"
  proof (cases "\<exists>at. event = GameEventTick at")
    case True
    with that tick show ?thesis by (auto simp: processEvent_def upd split: if_splits)
  next
    case False
    then have "\<forall>at. event \<noteq> GameEventTick at" by simp
    from act [OF this] obtain e where "processAction event st st = (st, Inl e)" by blast
    with that False show ?thesis
      by (cases event) (auto simp: processEvent_def upd Let_def split: if_splits)
  qed
  show "\<exists>next. processEvent (GameEventTick at) st = (st, Inr next)" if "startAt (config st) < at"
    using that tick assms(3) by (auto simp: processEvent_def upd)
qed

lemma reachable_cases:
  assumes "reachable cfg st"
  shows "(winner st = None \<and> playerStates st = replicate (length (players cfg)) initPlayerState \<and>
          votes st = replicate (length (players cfg)) None) \<or>
         (winner st = Some (-1) \<and>
          playerStates st = replicate (length (players cfg)) disqualifiedPlayerState)"
  using assms
proof (induction rule: reachable.induct)
  case (initial st)
  then show ?case using initGame_shape [of cfg st] by simp
next
  case (returned st event st' nextState)
  from returned.IH show ?case
  proof
    assume "winner st = None \<and> playerStates st = replicate (length (players cfg)) initPlayerState \<and>
          votes st = replicate (length (players cfg)) None"
    then show ?thesis using processEvent_fresh(3) [OF _ _ _ returned.hyps(2)] by blast
  next
    assume "winner st = Some (-1) \<and>
          playerStates st = replicate (length (players cfg)) disqualifiedPlayerState"
    then have "processEvent event st = (st, Inl GameAlreadyComplete)"
      by (simp add: processEvent_winner_decided)
    with returned.hyps(2) show ?thesis by simp
  qed
next
  case (input st event st' outcome)
  from input.IH have "fst (processEvent event st) = st"
  proof
    assume "winner st = None \<and> playerStates st = replicate (length (players cfg)) initPlayerState \<and>
          votes st = replicate (length (players cfg)) None"
    then show ?thesis using processEvent_fresh(1) by blast
  next
    assume "winner st = Some (-1) \<and>
          playerStates st = replicate (length (players cfg)) disqualifiedPlayerState"
    then show ?thesis by (simp add: processEvent_winner_decided)
  qed
  with input.hyps(2) have "st' = st" by simp
  with input.IH show ?case by simp
qed

lemma initGame_freshState: "initGame demoConfig = Inr freshState"
  by (simp add: initGame_def demoConfig_def freshState_def validArrayLength_def)



text \<open>
  Claim C7, as amended. The states \<open>initGame\<close> produces do not satisfy "HP \<open>\<le>\<close> 0 is never
  alive": there every player has \<open>hp = 0\<close> and \<open>alive = true\<close>. In every state that a
  successful transition returns from a state reachable from \<open>initGame\<close>, every player whose
  \<open>hp\<close> is \<open>\<le> 0\<close> has \<open>alive = false\<close>.
\<close>

theorem hp_zero_alive_only_initially:
  "(initGame cfg = Inr st0 \<longrightarrow> list_all (\<lambda>p. hp p = 0 \<and> alive p) (playerStates st0)) \<and>
   (reachable cfg st \<and> processEvent event st = (st', Inr nxt) \<longrightarrow>
      list_all (\<lambda>p. hp p \<le> 0 \<longrightarrow> \<not> alive p) (playerStates nxt))"
proof -
  have "list_all (\<lambda>p. hp p = 0 \<and> alive p) (playerStates st0)" if "initGame cfg = Inr st0"
    using initGame_shape(2) [OF that] by (simp add: list_all_iff initPlayerState_def)
  moreover have "list_all (\<lambda>p. hp p \<le> 0 \<longrightarrow> \<not> alive p) (playerStates nxt)"
    if "reachable cfg st" "processEvent event st = (st', Inr nxt)"
  proof -
    from that have "reachable cfg nxt" by (rule reachable.returned)
    from reachable_cases [OF this] that(2) reachable_cases [OF that(1)]
    have "playerStates nxt = replicate (length (players cfg)) disqualifiedPlayerState"
      using processEvent_fresh(3) [OF _ _ _ that(2)]
      by (auto simp: processEvent_winner_decided)
    then show ?thesis by (simp add: list_all_iff disqualifiedPlayerState_def)
  qed
  ultimately show ?thesis by blast
qed

lemma tick_freshState:
  "processEvent (GameEventTick ''2023-09-09T03:00:00.000Z'') freshState =
     (freshState, Inr finishedState)"
  by (simp add: processEvent_def processTick_def freshState_def finishedState_def demoConfig_def
      disqualifyUnplaced_def initPlayerState_def disqualifiedPlayerState_def grantAP_def
      decideWinner_def survivors_def upt_rec Let_def)

theorem hp_zero_alive_only_initially_witness:
  "list_all (\<lambda>p. hp p = 0 \<and> alive p) (playerStates freshState) \<and>
   processEvent (GameEventTick ''2023-09-09T03:00:00.000Z'') freshState =
     (freshState, Inr finishedState) \<and>
   list_all (\<lambda>p. hp p \<le> 0 \<and> \<not> alive p) (playerStates finishedState)"
proof -
  have r: "reachable demoConfig freshState"
    by (rule reachable.initial) (rule initGame_freshState)
  have z: "list_all (\<lambda>p. hp p \<le> 0) (playerStates finishedState)"
    by (simp add: finishedState_def disqualifiedPlayerState_def initPlayerState_def)
  from hp_zero_alive_only_initially
    [of demoConfig freshState freshState "GameEventTick ''2023-09-09T03:00:00.000Z''"
      freshState finishedState]
    initGame_freshState r tick_freshState z
  show ?thesis by (simp add: list_all_iff)
qed

text \<open>Claim C7 as stated fails on the state \<open>initGame\<close> returns: player 0 has
  \<open>hp = 0\<close> and is alive.\<close>

theorem hp_zero_alive_counterexample:
  "initGame demoConfig = Inr freshState \<and>
   hp (playerStates freshState ! 0) \<le> 0 \<and> alive (playerStates freshState ! 0)"
  by (simp add: initGame_freshState) (simp add: freshState_def initPlayerState_def)

subsection \<open>Actions write to the input state\<close>

lemma withActor_Inr:
  "withActor player st handler = (st', Inr nxt) \<Longrightarrow>
   \<exists>pState. js_get (playerStates st) player = Some pState \<and> \<not> disqualified pState \<and>
     handler pState = (st', Inr nxt)"
  by (auto simp: withActor_def split: option.splits if_splits)

lemma processPlace_Inr:
  assumes "processPlace player pState r c st nextState = (st', Inr nxt)"
  shows "playerStates nxt = playerStates nextState" and "votes nxt = votes nextState"
    and "st' = setActor st player (pState\<lparr>placed := True\<rparr>)"
    and "\<not> placed pState" and "1 \<le> ap pState" and "\<not> outOfBounds nextState r c"
  using assms
  by (auto simp: processPlace_def split: if_splits option.splits)

lemma processMove_Inr:
  assumes "processMove player pState d st nextState = (st', Inr nxt)"
  shows "playerStates nxt = playerStates nextState" and "votes nxt = votes nextState"
  using assms
  by (auto simp: processMove_def Let_def split: if_splits option.splits prod.splits)

lemma processFire_Inr:
  assumes "processFire player pState target st nextState = (st', Inr nxt)"
  shows "votes nxt = votes nextState"
    and "player \<noteq> target \<Longrightarrow> 0 \<le> player \<Longrightarrow>
         playerStates nxt ! nat player = playerStates nextState ! nat player"
  using assms
  by (auto simp: processFire_def Let_def invalidTarget_def split: if_splits)

text \<open>In the state a PLACE, a MOVE or a FIRE returns, the actor is what it was in the input
  state (for a FIRE, unless it fired at itself), and the votes are the input's votes.\<close>

lemma place_returns_players_unchanged:
  assumes "processEvent (GameEventPlace at player r c) st = (st', Inr nxt)"
  shows "playerStates nxt = playerStates st"
proof -
  from assms have w: "winner st = None" by (auto simp: processEvent_def split: if_splits)
  from assms obtain mid where
    "processAction (GameEventPlace at player r c) st st = (st', Inr mid)" "nxt = decideWinner mid"
    by (auto simp: processEvent_def winner_None_update [OF w] split: if_splits prod.splits sum.splits)
  then show ?thesis
    by (auto simp: playerStates_decideWinner dest!: withActor_Inr processPlace_Inr(1))
qed

lemma move_returns_players_unchanged:
  assumes "processEvent (GameEventMove at player d) st = (st', Inr nxt)"
  shows "playerStates nxt = playerStates st"
proof -
  from assms have w: "winner st = None" by (auto simp: processEvent_def split: if_splits)
  from assms obtain mid where
    "processAction (GameEventMove at player d) st st = (st', Inr mid)" "nxt = decideWinner mid"
    by (auto simp: processEvent_def winner_None_update [OF w] split: if_splits prod.splits sum.splits)
  then show ?thesis
    by (auto simp: playerStates_decideWinner dest!: withActor_Inr processMove_Inr(1))
qed

lemma fire_returns_actor_and_votes_unchanged:
  assumes "processEvent (GameEventFire at player target) st = (st', Inr nxt)"
  shows "votes nxt = votes st"
    and "player \<noteq> target \<Longrightarrow> playerStates nxt ! nat player = playerStates st ! nat player"
proof -
  from assms have w: "winner st = None" by (auto simp: processEvent_def split: if_splits)
  from assms obtain mid where mid:
    "processAction (GameEventFire at player target) st st = (st', Inr mid)" "nxt = decideWinner mid"
    by (auto simp: processEvent_def winner_None_update [OF w] split: if_splits prod.splits sum.splits)
  then obtain pState where p: "js_get (playerStates st) player = Some pState"
    "processFire player pState target st st = (st', Inr mid)"
    by (auto dest!: withActor_Inr)
  from p(1) have "0 \<le> player" by (auto simp: js_get_def split: if_splits)
  with processFire_Inr [OF p(2)] mid(2)
  show "votes nxt = votes st"
    and "player \<noteq> target \<Longrightarrow> playerStates nxt ! nat player = playerStates st ! nat player"
    by (simp_all add: votes_decideWinner playerStates_decideWinner)
qed

text \<open>\<open>getVector\<close> maps RIGHT to the vector of UP, so a MOVE to the right is a MOVE up.\<close>

lemma getVector_right_is_up: "getVector RIGHT = Some (-1, 0) \<and> getVector UP = Some (-1, 0)"
  by (simp add: getVector_def)

lemma processMove_right_is_up:
  "processMove player pState RIGHT st nextState = processMove player pState UP st nextState"
  by (simp only: processMove_def getVector_right_is_up)

lemma move_right_is_move_up:
  "processEvent (GameEventMove at player RIGHT) st = processEvent (GameEventMove at player UP) st"
  by (simp add: processEvent_def processMove_right_is_up)

text \<open>
  Claim C4 (defect). Player 0 of \<open>placingState\<close> is unplaced with one action point, and
  cell (0, 0) is empty and in bounds, so the PLACE succeeds. The state it returns holds the
  actor's index in the cell and the actor's AP unchanged, but the actor's \<open>placed\<close> flag is
  still \<open>false\<close> there: line 262 sets the flag on \<open>pState\<close>, the actor of the input state,
  and it is the input state that comes out with \<open>placed = true\<close>.
\<close>

theorem place_leaves_returned_actor_unplaced:
  "processEvent (GameEventPlace ''2023-09-08T05:00:00.000Z'' 0 0 0) placingState =
     (placingState\<lparr>playerStates :=
          [initPlayerState\<lparr>ap := 1, placed := True\<rparr>, initPlayerState, initPlayerState]\<rparr>,
      Inr (placingState\<lparr>boardState :=
          [[Some 0, None, None, None], [None, None, None, None],
           [None, None, None, None], [None, None, None, None]]\<rparr>)) \<and>
   placed (playerStates placingState ! 0) = False"
  by code_simp

text \<open>
  Claim C5 (defect). Player 1 of \<open>battleState\<close> stands on (1, 1) with 5 AP. Its MOVE to
  the RIGHT succeeds and goes one row up, as UP would: the returned board has the old cell
  (1, 1) empty and the cell (0, 1) holding player 1. But the returned state's player 1 still has
  5 AP and the coordinates (1, 1): lines 292, 295 and 296 write through \<open>pState\<close>, so the AP
  deducted and the new coordinates (0, 1) land in the input state.
\<close>

theorem move_leaves_returned_actor_unmoved:
  "processEvent (GameEventMove ''2023-09-08T05:00:00.000Z'' 1 RIGHT) battleState =
     (battleState\<lparr>playerStates := (playerStates battleState)
          [1 := \<lparr>placed = True, alive = True, disqualified = False, locRow = 0, locCol = 1,
                 range_ps = 2, ap = 4, hp = 1\<rparr>]\<rparr>,
      Inr (battleState\<lparr>boardState :=
          [[Some 0, Some 1, None, None], [None, None, None, None],
           [None, None, Some 2, None], [None, None, None, None]]\<rparr>)) \<and>
   playerStates battleState ! 1 =
     \<lparr>placed = True, alive = True, disqualified = False, locRow = 1, locCol = 1,
      range_ps = 2, ap = 5, hp = 1\<rparr>"
  by code_simp

text \<open>
  Claim C6 (defect). In \<open>battleState\<close> player 0 (2 AP) fires at player 1 (1 HP, 5 AP), for
  whom the dead player 2 has voted. The FIRE succeeds and kills the target: in the returned
  state player 1 has \<open>hp = 0\<close>, is not alive and has \<open>ap = 0\<close>. But the returned actor
  still has its 2 AP, not 2 - 1 + 5 = 6 (lines 313 and 318 write through \<open>pState\<close>: the 6 AP
  are in the input state), and the vote slot of player 2 still holds 1 (line 317 maps the votes
  and drops the result).
\<close>

theorem fire_kill_keeps_actor_ap_and_votes:
  "processEvent (GameEventFire ''2023-09-08T05:00:00.000Z'' 0 1) battleState =
     (battleState\<lparr>playerStates := (playerStates battleState)
          [0 := \<lparr>placed = True, alive = True, disqualified = False, locRow = 0, locCol = 0,
                 range_ps = 2, ap = 6, hp = 3\<rparr>]\<rparr>,
      Inr (battleState\<lparr>playerStates := (playerStates battleState)
          [1 := \<lparr>placed = True, alive = False, disqualified = False, locRow = 1, locCol = 1,
                 range_ps = 2, ap = 0, hp = 0\<rparr>],
          winner := Some 0\<rparr>)) \<and>
   ap (playerStates battleState ! 0) = 2 \<and> ap (playerStates battleState ! 1) = 5 \<and>
   votes battleState = [None, None, Some 1]"
  by code_simp

subsection \<open>The replay\<close>

text \<open>A logged event at or before every coming tick is never chosen, and neither is any event
  behind it in the log: the replay goes on as if the log ended before it.\<close>

lemma calculateLoop_starved:
  assumes "i < length (events p)" and "\<forall>j\<ge>k. submittedAt (events p ! i) \<le> ticks j"
    and "state q = state p" and "updatedAt q = updatedAt p" and "events q = take i (events p)"
  shows "map_option snd (calculateLoop fuel ticks until p k i cur) =
         map_option snd (calculateLoop fuel ticks until q k i cur)"
  using assms
proof (induction fuel arbitrary: k cur p q)
  case 0
  then show ?case by simp
next
  case (Suc fuel)
  have tick_p: "submittedAt (events p ! i) \<le> ticks k" using Suc.prems(2) by simp
  have len_q: "\<not> i < length (events q)" using Suc.prems(5) by simp
  have cs: "currentStateOf q cur = currentStateOf p cur"
    using Suc.prems(3) by (simp add: currentStateOf_def split: option.splits)
  have later: "\<forall>j\<ge>Suc k. submittedAt (events p ! i) \<le> ticks j" using Suc.prems(2) by simp
  have skip: "map_option snd (calculateLoop fuel ticks until p (Suc k) i cur) =
         map_option snd (calculateLoop fuel ticks until q (Suc k) i cur)"
    by (rule Suc.IH [OF Suc.prems(1) later Suc.prems(3,4,5)])
  have step: "map_option snd (calculateLoop fuel ticks until (storeInput p cur st') (Suc k) i cur') =
         map_option snd (calculateLoop fuel ticks until (storeInput q cur st') (Suc k) i cur')"
    for st' cur'
    by (rule Suc.IH) (use Suc.prems later in \<open>auto simp: storeInput_def split: option.splits\<close>)
  show ?case
    using tick_p len_q Suc.prems(1,4) skip step
    by (simp add: Let_def cs split: prod.splits sum.splits)
qed

text \<open>
  Claim C1 (defect). The log of \<open>fireProcess\<close> holds one FIRE, submitted an hour after
  \<open>updatedAt\<close>, before the first tick (9 September, 03:00) and before the query instant
  (9 September, 12:00). Line 446 chooses the TICK whenever the event's instant is
  \<open><=\<close> the next tick, so the FIRE is never chosen: the replay applies the tick of 9 September
  alone (players 0 and 1 gain their AP, the votes are reset) and stops at the tick of
  10 September. Player 1, whom the FIRE would have killed, still has its 1 HP.
\<close>

theorem replay_skips_event_before_tick:
  "calculateState 2 demoTicks ''2023-09-09T12:00:00.000Z'' fireProcess =
     Some (fireProcess,
       Inr (battleState\<lparr>playerStates :=
          [\<lparr>placed = True, alive = True, disqualified = False, locRow = 0, locCol = 0,
            range_ps = 2, ap = 3, hp = 3\<rparr>,
           \<lparr>placed = True, alive = True, disqualified = False, locRow = 1, locCol = 1,
            range_ps = 2, ap = 6, hp = 1\<rparr>,
           \<lparr>placed = True, alive = False, disqualified = False, locRow = 2, locCol = 2,
            range_ps = 2, ap = 0, hp = 0\<rparr>],
          votes := [None, None, None]\<rparr>))"
  by code_simp

text \<open>
  Claim C8 (defect). The log of \<open>placeProcess\<close> holds a PLACE submitted after the first
  tick, so line 446 chooses it first and \<open>processEvent\<close> is called on \<open>process.state\<close>
  itself: \<open>calculateState\<close> leaves the stored state changed (player 0 now has
  \<open>placed = true\<close>). The same call again, on the process as the first call left it, no longer
  returns a state: the PLACE fails with "player already placed".
\<close>

theorem replay_writes_to_stored_state:
  "calculateState 3 demoTicks ''2023-09-09T12:00:00.000Z'' placeProcess =
     Some (placeProcess\<lparr>state := placingState\<lparr>playerStates :=
             [initPlayerState\<lparr>ap := 1, placed := True\<rparr>, initPlayerState, initPlayerState]\<rparr>\<rparr>,
           Inr (placingState\<lparr>playerStates :=
                  [disqualifiedPlayerState\<lparr>ap := 1\<rparr>, disqualifiedPlayerState,
                   disqualifiedPlayerState],
                boardState :=
                  [[Some 0, None, None, None], [None, None, None, None],
                   [None, None, None, None], [None, None, None, None]],
                winner := Some (-1)\<rparr>)) \<and>
   calculateState 3 demoTicks ''2023-09-09T12:00:00.000Z''
       (placeProcess\<lparr>state := placingState\<lparr>playerStates :=
             [initPlayerState\<lparr>ap := 1, placed := True\<rparr>, initPlayerState, initPlayerState]\<rparr>\<rparr>) =
     Some (placeProcess\<lparr>state := placingState\<lparr>playerStates :=
             [initPlayerState\<lparr>ap := 1, placed := True\<rparr>, initPlayerState, initPlayerState]\<rparr>\<rparr>,
           Inl AlreadyPlaced)"
  by code_simp

subsection \<open>processEvents\<close>

lemma processEvents_returns_input: "processEvents parses process evs = Inr p \<Longrightarrow> p = process"
  by (auto simp: processEvents_def Let_def split: if_splits)

lemma hd_sort_key_le_iff:
  fixes f :: "'a \<Rightarrow> 'b::linorder"
  assumes "xs \<noteq> []"
  shows "f (hd (sort_key f xs)) \<le> u \<longleftrightarrow> (\<exists>x \<in> set xs. f x \<le> u)"
proof -
  from assms obtain y ys where s: "sort_key f xs = y # ys"
    by (cases "sort_key f xs") (auto dest: arg_cong [where f = length])
  have sorted: "sorted (map f (y # ys))" using sorted_sort_key [of f xs] s by simp
  have sets: "set (y # ys) = set xs" using set_sort [of f xs] s by simp
  show ?thesis
  proof
    assume "f (hd (sort_key f xs)) \<le> u"
    with s sets show "\<exists>x \<in> set xs. f x \<le> u" by auto
  next
    assume "\<exists>x \<in> set xs. f x \<le> u"
    then obtain x where x: "x \<in> set xs" "f x \<le> u" by blast
    with sets have "x = y \<or> x \<in> set ys" by auto
    with sorted have "f y \<le> f x" by auto
    with x s show "f (hd (sort_key f xs)) \<le> u" by simp
  qed
qed

text \<open>For a batch that is not empty: the call throws "retroactive events" exactly when some
  incoming event is not after \<open>updatedAt\<close>, and it returns (the process it was given) exactly
  when every incoming event is after \<open>updatedAt\<close> and the schedule parses.\<close>

lemma processEvents_fails_iff:
  assumes "evs \<noteq> []"
  shows "processEvents parses process evs = Inl RetroactiveEvents \<longleftrightarrow>
         (\<exists>e \<in> set evs. submittedAt e \<le> updatedAt process)"
    and "processEvents parses process evs = Inr process \<longleftrightarrow>
         (\<forall>e \<in> set evs. updatedAt process < submittedAt e) \<and>
         parses (turnInterval (config (state process))) (updatedAt process)
           (turnIntervalTZ (config (state process)))"
    and "processEvents parses process evs = Inl ScheduleParseError \<longleftrightarrow>
         (\<forall>e \<in> set evs. updatedAt process < submittedAt e) \<and>
         \<not> parses (turnInterval (config (state process))) (updatedAt process)
           (turnIntervalTZ (config (state process)))"
proof -
  have k: "submittedAt (hd (sort_key submittedAt evs)) \<le> updatedAt process \<longleftrightarrow>
      (\<exists>e \<in> set evs. submittedAt e \<le> updatedAt process)"
    by (rule hd_sort_key_le_iff [OF assms])
  have n: "\<not> (\<exists>e \<in> set evs. submittedAt e \<le> updatedAt process) \<longleftrightarrow>
      (\<forall>e \<in> set evs. updatedAt process < submittedAt e)"
    by (simp add: not_le)
  show "processEvents parses process evs = Inl RetroactiveEvents \<longleftrightarrow>
         (\<exists>e \<in> set evs. submittedAt e \<le> updatedAt process)"
    by (simp add: processEvents_def Let_def assms k)
  have "processEvents parses process evs = Inr process \<longleftrightarrow>
         \<not> (\<exists>e \<in> set evs. submittedAt e \<le> updatedAt process) \<and>
         parses (turnInterval (config (state process))) (updatedAt process)
           (turnIntervalTZ (config (state process)))"
    by (simp add: processEvents_def Let_def assms k)
  then show "processEvents parses process evs = Inr process \<longleftrightarrow>
         (\<forall>e \<in> set evs. updatedAt process < submittedAt e) \<and>
         parses (turnInterval (config (state process))) (updatedAt process)
           (turnIntervalTZ (config (state process)))"
    by (simp only: n)
  have "processEvents parses process evs = Inl ScheduleParseError \<longleftrightarrow>
         \<not> (\<exists>e \<in> set evs. submittedAt e \<le> updatedAt process) \<and>
         \<not> parses (turnInterval (config (state process))) (updatedAt process)
           (turnIntervalTZ (config (state process)))"
    by (simp add: processEvents_def Let_def assms k)
  then show "processEvents parses process evs = Inl ScheduleParseError \<longleftrightarrow>
         (\<forall>e \<in> set evs. updatedAt process < submittedAt e) \<and>
         \<not> parses (turnInterval (config (state process))) (updatedAt process)
           (turnIntervalTZ (config (state process)))"
    by (simp only: n)
qed

text \<open>
  Claim C2 (defect). Both new events are after \<open>updatedAt\<close> and the schedule of
  \<open>demoConfig\<close> parses, so \<open>processEvents\<close> succeeds; what it returns is the process it was
  given, whose log is still empty: the two events are not appended.
\<close>

theorem processEvents_drops_new_events:
  "processEvents demoParses (initProcess battleState)
      [GameEventTick ''2023-09-09T03:00:00.000Z'',
       GameEventFire ''2023-09-08T05:00:00.000Z'' 0 1] =
     Inr (initProcess battleState) \<and>
   events (initProcess battleState) = []"
  by code_simp

end
